theory Spec2Isabelle
  imports Complex_Main
begin

section \<open>Constants (constants.ts)\<close>

datatype ChainId = MAINNET | ROPSTEN | RINKEBY | GOERLI | KOVAN | BSC_MAINNET | BSC_TESTNET

text \<open>The numeric value the enumeration gives each network.\<close>

fun chainIdNumber :: "ChainId \<Rightarrow> nat" where
  "chainIdNumber MAINNET = 1"
| "chainIdNumber ROPSTEN = 3"
| "chainIdNumber RINKEBY = 4"
| "chainIdNumber GOERLI = 5"
| "chainIdNumber KOVAN = 42"
| "chainIdNumber BSC_MAINNET = 56"
| "chainIdNumber BSC_TESTNET = 97"

datatype TradeType = EXACT_INPUT | EXACT_OUTPUT

datatype Rounding = ROUND_DOWN | ROUND_HALF_UP | ROUND_UP

fun FACTORY_ADDRESS :: "ChainId \<Rightarrow> string" where
  "FACTORY_ADDRESS MAINNET = ''0x26023843814cFF92B8d75311d64D1C032b8b29f2''"
| "FACTORY_ADDRESS ROPSTEN = ''0xDfD8bbA37423950bD8050C65E698610C57E55cea''"
| "FACTORY_ADDRESS RINKEBY = ''''"
| "FACTORY_ADDRESS GOERLI = ''''"
| "FACTORY_ADDRESS KOVAN = ''''"
| "FACTORY_ADDRESS BSC_MAINNET = ''0x86A859773cf6df9C8117F20b0B950adA84e7644d''"
| "FACTORY_ADDRESS BSC_TESTNET = ''0x0eef57EAE29DA890be9211c010F3e31d950fbE67''"

fun INIT_CODE_HASH :: "ChainId \<Rightarrow> string" where
  "INIT_CODE_HASH MAINNET = ''0x7fc48862bb659c6079c67f949053514afd141b7fcc1dc2b0a9474d647c51d670''"
| "INIT_CODE_HASH ROPSTEN = ''0x8b4ce8ec78a7c1be0d482d641f59b942070725a4b7782595db30956c6d46e824''"
| "INIT_CODE_HASH RINKEBY = ''''"
| "INIT_CODE_HASH GOERLI = ''''"
| "INIT_CODE_HASH KOVAN = ''''"
| "INIT_CODE_HASH BSC_MAINNET = ''0x7fc48862bb659c6079c67f949053514afd141b7fcc1dc2b0a9474d647c51d670''"
| "INIT_CODE_HASH BSC_TESTNET = ''0x058100cd6ec5f46d7d7d1e7084082fa4735355e21527487ff6a88c908174e2be''"

section \<open>Entities the router reads\<close>

text \<open>
  The entity classes (Token, Currency, CurrencyAmount, Percent, Route, Trade) are imported
  by the router from \<^verbatim>\<open>./entities\<close>, which is not among the sources. Only the fields the
  router reads are kept. A currency is either the singleton \<^verbatim>\<open>ETHER\<close> or a token, so the
  test \<^verbatim>\<open>currency === ETHER\<close> is equality with the constructor \<open>ETHER\<close>. The raw amount
  is a JSBI integer, an \<open>int\<close> here.
\<close>

record Token =
  chainId :: ChainId
  address :: string
  decimals :: nat

datatype Currency = ETHER | TOKEN Token

record CurrencyAmount =
  currency :: Currency
  raw :: int

record Percent =
  numerator :: int
  denominator :: int

record Pair =
  token0 :: Token
  token1 :: Token
  reserve0 :: int
  reserve1 :: int

record Route =
  pairs :: "Pair list"
  route_path :: "Token list"

record Trade =
  route :: Route
  tradeType :: TradeType
  inputAmount :: CurrencyAmount
  outputAmount :: CurrencyAmount

section \<open>Errors\<close>

text \<open>
  \<^verbatim>\<open>invariant(cond, message)\<close> of tiny-invariant throws when \<open>cond\<close> is false; the message
  is optional, and an invariant written without one carries no reason. The other
  constructors stand for the failures of the collaborators that are not among the sources.
\<close>

datatype error =
    InvariantFailed "string option"
  | InvalidAddress string
  | CurrencyMismatch
  | DivisionByZero
  | TypeError

definition invariant :: "bool \<Rightarrow> string option \<Rightarrow> error + unit" where
  "invariant cond message = (if cond then Inr () else Inl (InvariantFailed message))"

section \<open>Hexadecimal encoding\<close>

definition hexDigit :: "nat \<Rightarrow> char" where
  "hexDigit d = ''0123456789abcdef'' ! d"

text \<open>The digits of \<^verbatim>\<open>n.toString(16)\<close> for a natural number: most significant first.\<close>

fun digits16 :: "nat \<Rightarrow> string" where
  "digits16 n = (if n < 16 then [hexDigit n] else digits16 (n div 16) @ [hexDigit (n mod 16)])"

declare digits16.simps [simp del]

text \<open>\<^verbatim>\<open>toString(16)\<close> of an integer: a minus sign before the digits of a negative one.\<close>

definition toString16 :: "int \<Rightarrow> string" where
  "toString16 i = (if i < 0 then CHR ''-'' # digits16 (nat (- i)) else digits16 (nat i))"

definition toHex :: "CurrencyAmount \<Rightarrow> string" where
  "toHex currencyAmount = ''0x'' @ toString16 (raw currencyAmount)"

section \<open>JavaScript numbers\<close>

text \<open>
  \<^verbatim>\<open>ttl\<close> is declared \<^verbatim>\<open>number\<close>: not-a-number, one of the two infinities, or a finite
  value, taken as the rational it denotes. Only what the router does with such a value is
  modelled: the comparison \<^verbatim>\<open>> 0\<close>, the addition to the clock's whole seconds, and
  \<^verbatim>\<open>toString(16)\<close>. A sum of finite values is exact, as it is in JavaScript wherever the
  sum is representable; the rounding of other sums is not modelled.
\<close>

datatype number = NaN | Infinity | NegInfinity | Finite rat

text \<open>\<^verbatim>\<open>n > 0\<close>: false of not-a-number.\<close>

fun isPositive :: "number \<Rightarrow> bool" where
  "isPositive NaN = False"
| "isPositive Infinity = True"
| "isPositive NegInfinity = False"
| "isPositive (Finite q) = (0 < q)"

text \<open>\<^verbatim>\<open>a + b\<close> on numbers.\<close>

fun addNumber :: "number \<Rightarrow> number \<Rightarrow> number" where
  "addNumber NaN b = NaN"
| "addNumber a NaN = NaN"
| "addNumber Infinity NegInfinity = NaN"
| "addNumber NegInfinity Infinity = NaN"
| "addNumber Infinity b = Infinity"
| "addNumber a Infinity = Infinity"
| "addNumber NegInfinity b = NegInfinity"
| "addNumber a NegInfinity = NegInfinity"
| "addNumber (Finite p) (Finite q) = Finite (p + q)"


text \<open>
  The hexadecimal digits of a fractional part \<open>0 \<le> f < 1\<close>, most significant first, until
  nothing is left. The first argument bounds their number: the fractional part of a double
  has at most 1074 binary digits, 269 hexadecimal ones.
\<close>

fun fractionDigits16 :: "nat \<Rightarrow> rat \<Rightarrow> string" where
  "fractionDigits16 0 f = []"
| "fractionDigits16 (Suc n) f =
     (if f = 0 then []
      else hexDigit (nat \<lfloor>f * 16\<rfloor>) # fractionDigits16 n (f * 16 - of_int \<lfloor>f * 16\<rfloor>))"

text \<open>
  \<^verbatim>\<open>toString(16)\<close> of a non-negative finite number: the digits of the whole part, then, if
  there is a fractional part, a radix point and its digits.
\<close>

definition magnitude16 :: "rat \<Rightarrow> string" where
  "magnitude16 q =
     digits16 (nat \<lfloor>q\<rfloor>)
     @ (if of_int \<lfloor>q\<rfloor> = q then [] else CHR ''.'' # fractionDigits16 269 (q - of_int \<lfloor>q\<rfloor>))"

text \<open>\<^verbatim>\<open>toString(16)\<close> of a number.\<close>

fun numberToString16 :: "number \<Rightarrow> string" where
  "numberToString16 NaN = ''NaN''"
| "numberToString16 Infinity = ''Infinity''"
| "numberToString16 NegInfinity = ''-Infinity''"
| "numberToString16 (Finite q) = (if q < 0 then CHR ''-'' # magnitude16 (- q) else magnitude16 q)"

section \<open>Router call builder (router.ts)\<close>

text \<open>
  The options object. JavaScript objects are structural: the interface of router.ts
  declares the optional key \<^verbatim>\<open>ethFee\<close>, that of the second router module the optional
  key \<^verbatim>\<open>ethTip\<close>, and one object may carry either or both. An absent key (or one holding
  \<^verbatim>\<open>undefined\<close>) is \<open>None\<close>. \<^verbatim>\<open>ttl\<close> is a JavaScript number.
\<close>

record TradeOptions =
  allowedSlippage :: Percent
  ttl :: number
  recipient :: string
  feeOnTransfer :: "bool option"
  ethFee :: "CurrencyAmount option"
  ethTip :: "CurrencyAmount option"

record SafeSwapTrade =
  amountIn :: string
  amountOut :: string
  path :: "string list"
  to :: string
  deadline :: string

text \<open>
  An element of \<^verbatim>\<open>args\<close>: \<^verbatim>\<open>string | string[] | SafeSwapTrade\<close>. The field
  \<^verbatim>\<open>value\<close> of the result is written \<open>value_hex\<close>, and the field \<^verbatim>\<open>path\<close> of a route
  \<open>route_path\<close>, the name \<open>path\<close> being kept for the field of \<^verbatim>\<open>SafeSwapTrade\<close>.
\<close>

datatype Arg = ArgString string | ArgStrings "string list" | ArgSafeSwapTrade SafeSwapTrade

record SwapParameters =
  methodName :: string
  args :: "Arg list"
  value_hex :: string

text \<open>
  What the router calls and does not define: the address validator of \<^verbatim>\<open>./utils\<close>, the
  two slippage bounds of \<^verbatim>\<open>Trade\<close>, and the clock (\<^verbatim>\<open>new Date().getTime()\<close>, a whole
  number of milliseconds, so that \<^verbatim>\<open>Math.floor(getTime() / 1000)\<close> is \<open>getTime ext div 1000\<close>).
  Each call that can throw returns a sum.
\<close>

record Externals =
  validateAndParseAddress :: "string \<Rightarrow> error + string"
  maximumAmountIn :: "Trade \<Rightarrow> Percent \<Rightarrow> error + CurrencyAmount"
  minimumAmountOut :: "Trade \<Rightarrow> Percent \<Rightarrow> error + CurrencyAmount"
  getTime :: int

text \<open>
  Modelled from the spec: \<^verbatim>\<open>CurrencyAmount.add\<close> is not among the sources; "arithmetic
  between two amounts requires identical currency, else fails".
\<close>

definition add_amount :: "CurrencyAmount \<Rightarrow> CurrencyAmount \<Rightarrow> error + CurrencyAmount" where
  "add_amount a b =
     (if currency a = currency b
      then Inr \<lparr>currency = currency a, raw = raw a + raw b\<rparr>
      else Inl CurrencyMismatch)"

text \<open>
  Sequencing of calls that can throw: the first failure is the outcome, and nothing after
  it runs.
\<close>

definition bind_result :: "error + 'a \<Rightarrow> ('a \<Rightarrow> error + 'b) \<Rightarrow> error + 'b" where
  "bind_result r f = (case r of Inl e \<Rightarrow> Inl e | Inr x \<Rightarrow> f x)"

text \<open>
  \<^verbatim>\<open>Router.swapCallParameters\<close> of router.ts, statement by statement. The last binding
  before the \<open>let\<close> is the read of \<^verbatim>\<open>options.ethFee.raw\<close> in \<^verbatim>\<open>toHex(options.ethFee)\<close>,
  a TypeError on \<^verbatim>\<open>undefined\<close>.
\<close>

definition swapCallParameters :: "Externals \<Rightarrow> Trade \<Rightarrow> TradeOptions \<Rightarrow> error + SwapParameters" where
  "swapCallParameters ext trade options =
    (let etherIn = (currency (inputAmount trade) = ETHER);
         etherOut = (currency (outputAmount trade) = ETHER)
     in
     bind_result (invariant (\<not> (etherIn \<and> etherOut)) (Some ''ETHER_IN_OUT'')) (\<lambda>_.
     bind_result (invariant (isPositive (ttl options)) (Some ''TTL'')) (\<lambda>_.
     bind_result (invariant (case ethFee options of None \<Rightarrow> False
                             | Some fee \<Rightarrow> (currency fee = ETHER)) None) (\<lambda>_.
     bind_result (validateAndParseAddress ext (recipient options)) (\<lambda>to_addr.
     bind_result (maximumAmountIn ext trade (allowedSlippage options)) (\<lambda>amountInCurrency.
     bind_result (minimumAmountOut ext trade (allowedSlippage options)) (\<lambda>amountOutCurrency.
     bind_result (case ethFee options of None \<Rightarrow> Inl TypeError | Some fee \<Rightarrow> Inr fee) (\<lambda>fee.
       (let amountIn_hex = toHex amountInCurrency;
            amountOut_hex = toHex amountOutCurrency;
            path_addrs = map address (route_path (route trade));
            deadline_hex = ''0x'' @ numberToString16
                (addNumber (Finite (of_int (getTime ext div 1000))) (ttl options));
            ethFee_hex = toHex fee;
            safeSwapTrade = \<lparr>amountIn = amountIn_hex, amountOut = amountOut_hex,
                              path = path_addrs, to = to_addr, deadline = deadline_hex\<rparr>
        in
        (case tradeType trade of
           EXACT_INPUT \<Rightarrow>
             (if etherIn then
                bind_result (add_amount amountInCurrency fee) (\<lambda>amountInWithTip.
                  Inr \<lparr>methodName = ''swapExactETHForTokensWithFeeAmount'',
                       args = [ArgSafeSwapTrade safeSwapTrade, ArgString ethFee_hex],
                       value_hex = toHex amountInWithTip\<rparr>)
              else if etherOut then
                Inr \<lparr>methodName = ''swapExactTokensForETHAndTipAmount'',
                     args = [ArgSafeSwapTrade safeSwapTrade],
                     value_hex = ethFee_hex\<rparr>
              else
                Inr \<lparr>methodName = ''swapExactTokensForTokensWithFeeAmount'',
                     args = [ArgSafeSwapTrade safeSwapTrade],
                     value_hex = ethFee_hex\<rparr>)
         | EXACT_OUTPUT \<Rightarrow>
             (if etherIn then
                bind_result (add_amount amountInCurrency fee) (\<lambda>amountInWithTip.
                  Inr \<lparr>methodName = ''swapETHForExactTokensWithFeeAmount'',
                       args = [ArgSafeSwapTrade safeSwapTrade, ArgString ethFee_hex],
                       value_hex = toHex amountInWithTip\<rparr>)
              else if etherOut then
                Inr \<lparr>methodName = ''swapTokensForExactETHAndFeeAmount'',
                     args = [ArgSafeSwapTrade safeSwapTrade],
                     value_hex = ethFee_hex\<rparr>
              else
                Inr \<lparr>methodName = ''swapTokensForExactTokensWithFeeAmount'',
                     args = [ArgSafeSwapTrade safeSwapTrade],
                     value_hex = ethFee_hex\<rparr>)))))))))))"

text \<open>
  \<^verbatim>\<open>Router.swapCallParameters\<close> of the second router module (the one reading
  \<^verbatim>\<open>ethTip\<close>), statement by statement. \<^verbatim>\<open>useFeeOnTransfer\<close> is computed there and never
  read.
\<close>

definition swapCallParameters_tip :: "Externals \<Rightarrow> Trade \<Rightarrow> TradeOptions \<Rightarrow> error + SwapParameters" where
  "swapCallParameters_tip ext trade options =
    (let etherIn = (currency (inputAmount trade) = ETHER);
         etherOut = (currency (outputAmount trade) = ETHER)
     in
     bind_result (invariant (\<not> (etherIn \<and> etherOut)) (Some ''ETHER_IN_OUT'')) (\<lambda>_.
     bind_result (invariant (isPositive (ttl options)) (Some ''TTL'')) (\<lambda>_.
     bind_result (invariant (case ethTip options of None \<Rightarrow> False
                             | Some tip \<Rightarrow> (currency tip = ETHER)) None) (\<lambda>_.
     bind_result (validateAndParseAddress ext (recipient options)) (\<lambda>to_addr.
     bind_result (maximumAmountIn ext trade (allowedSlippage options)) (\<lambda>amountInCurrency.
     bind_result (minimumAmountOut ext trade (allowedSlippage options)) (\<lambda>amountOutCurrency.
     bind_result (case ethTip options of None \<Rightarrow> Inl TypeError | Some tip \<Rightarrow> Inr tip) (\<lambda>tip.
       (let amountIn_hex = toHex amountInCurrency;
            amountOut_hex = toHex amountOutCurrency;
            path_addrs = map address (route_path (route trade));
            deadline_hex = ''0x'' @ numberToString16
                (addNumber (Finite (of_int (getTime ext div 1000))) (ttl options));
            ethTip_hex = toHex tip;
            safeSwapTrade = \<lparr>amountIn = amountIn_hex, amountOut = amountOut_hex,
                              path = path_addrs, to = to_addr, deadline = deadline_hex\<rparr>;
            useFeeOnTransfer = (feeOnTransfer options = Some True)
        in
        (case tradeType trade of
           EXACT_INPUT \<Rightarrow>
             (if etherIn then
                bind_result (add_amount amountInCurrency tip) (\<lambda>amountInWithTip.
                  Inr \<lparr>methodName = ''swapExactETHForTokensWithTipAmount'',
                       args = [ArgSafeSwapTrade safeSwapTrade, ArgString ethTip_hex],
                       value_hex = toHex amountInWithTip\<rparr>)
              else if etherOut then
                Inr \<lparr>methodName = ''swapExactTokensForETHAndTipAmount'',
                     args = [ArgSafeSwapTrade safeSwapTrade],
                     value_hex = ethTip_hex\<rparr>
              else
                Inr \<lparr>methodName = ''swapExactTokensForTokensWithTipAmount'',
                     args = [ArgSafeSwapTrade safeSwapTrade],
                     value_hex = ethTip_hex\<rparr>)
         | EXACT_OUTPUT \<Rightarrow>
             (if etherIn then
                bind_result (add_amount amountInCurrency tip) (\<lambda>amountInWithTip.
                  Inr \<lparr>methodName = ''swapETHForExactTokensWithTipAmount'',
                       args = [ArgSafeSwapTrade safeSwapTrade, ArgString ethTip_hex],
                       value_hex = toHex amountInWithTip\<rparr>)
              else if etherOut then
                Inr \<lparr>methodName = ''swapTokensForExactETHAndTipAmount'',
                     args = [ArgSafeSwapTrade safeSwapTrade],
                     value_hex = ethTip_hex\<rparr>
              else
                Inr \<lparr>methodName = ''swapTokensForExactTokensWithTipAmount'',
                     args = [ArgSafeSwapTrade safeSwapTrade],
                     value_hex = ethTip_hex\<rparr>)))))))))))"

section \<open>The contract of the call builder, as the specification words it\<close>

text \<open>The position of the native asset in a trade: input, output, or neither.\<close>

datatype NativePosition = NativeIn | NativeOut | TokenToToken

definition nativePosition :: "Trade \<Rightarrow> NativePosition" where
  "nativePosition trade =
     (if currency (inputAmount trade) = ETHER then NativeIn
      else if currency (outputAmount trade) = ETHER then NativeOut
      else TokenToToken)"

text \<open>
  The method-name surface of the specification: six variants, keyed by trade side and
  native-asset position.
\<close>

fun variantName :: "TradeType \<Rightarrow> NativePosition \<Rightarrow> string" where
  "variantName EXACT_INPUT NativeIn = ''swapExactETHForTokensWithFeeAmount''"
| "variantName EXACT_INPUT NativeOut = ''swapExactTokensForETHAndTipAmount''"
| "variantName EXACT_INPUT TokenToToken = ''swapExactTokensForTokensWithFeeAmount''"
| "variantName EXACT_OUTPUT NativeIn = ''swapETHForExactTokensWithFeeAmount''"
| "variantName EXACT_OUTPUT NativeOut = ''swapTokensForExactETHAndFeeAmount''"
| "variantName EXACT_OUTPUT TokenToToken = ''swapTokensForExactTokensWithFeeAmount''"

text \<open>The names the second router module uses for the same six positions.\<close>

fun variantName_tip :: "TradeType \<Rightarrow> NativePosition \<Rightarrow> string" where
  "variantName_tip EXACT_INPUT NativeIn = ''swapExactETHForTokensWithTipAmount''"
| "variantName_tip EXACT_INPUT NativeOut = ''swapExactTokensForETHAndTipAmount''"
| "variantName_tip EXACT_INPUT TokenToToken = ''swapExactTokensForTokensWithTipAmount''"
| "variantName_tip EXACT_OUTPUT NativeIn = ''swapETHForExactTokensWithTipAmount''"
| "variantName_tip EXACT_OUTPUT NativeOut = ''swapTokensForExactETHAndTipAmount''"
| "variantName_tip EXACT_OUTPUT TokenToToken = ''swapTokensForExactTokensWithTipAmount''"

text \<open>
  The validations of the call builder all pass: not native on both sides, a positive
  \<^verbatim>\<open>ttl\<close>, a tip present and denominated in the native asset, a recipient the validator
  accepts.
\<close>

definition passesValidation :: "Externals \<Rightarrow> Trade \<Rightarrow> TradeOptions \<Rightarrow> bool" where
  "passesValidation ext trade options =
     (\<not> (currency (inputAmount trade) = ETHER \<and> currency (outputAmount trade) = ETHER)
      \<and> isPositive (ttl options)
      \<and> (case ethFee options of None \<Rightarrow> False | Some fee \<Rightarrow> (currency fee = ETHER))
      \<and> (case validateAndParseAddress ext (recipient options) of Inl _ \<Rightarrow> False | Inr _ \<Rightarrow> True))"

text \<open>
  The validations other than the one on the tip.
\<close>

definition passesOtherValidation :: "Externals \<Rightarrow> Trade \<Rightarrow> TradeOptions \<Rightarrow> bool" where
  "passesOtherValidation ext trade options =
     (\<not> (currency (inputAmount trade) = ETHER \<and> currency (outputAmount trade) = ETHER)
      \<and> isPositive (ttl options)
      \<and> (case validateAndParseAddress ext (recipient options) of Inl _ \<Rightarrow> False | Inr _ \<Rightarrow> True))"




text \<open>
  Modelled from the spec: the constructor of \<^verbatim>\<open>Route\<close> is not among the sources; a route
  is a chain of at least one pair, and its token path runs from the input token through
  one further token per pair.
\<close>

definition validRoute :: "Route \<Rightarrow> bool" where
  "validRoute r = (pairs r \<noteq> [] \<and> length (route_path r) = length (pairs r) + 1)"

text \<open>
  Modelled from the spec: the address validator \<^verbatim>\<open>validateAndParseAddress\<close> of
  \<^verbatim>\<open>./utils\<close> is not among the sources; it "accepts/normalizes a 20-byte hex address,
  fails on malformed input". Checksum casing is left to the validator and not modelled.
\<close>

definition isHexChar :: "char \<Rightarrow> bool" where
  "isHexChar c = (c \<in> set ''0123456789abcdefABCDEF'')"

definition isAddress :: "string \<Rightarrow> bool" where
  "isAddress s = (length s = 42 \<and> take 2 s = ''0x'' \<and> list_all isHexChar (drop 2 s))"

definition spec_validateAndParseAddress :: "string \<Rightarrow> error + string" where
  "spec_validateAndParseAddress s = (if isAddress s then Inr s else Inl (InvalidAddress s))"

text \<open>
  Modelled from the spec: \<^verbatim>\<open>Trade.maximumAmountIn\<close> and \<^verbatim>\<open>Trade.minimumAmountOut\<close> are
  not among the sources. "For EXACT_OUTPUT trades, inputAmount * (1 + slippageTolerance),
  ROUND_UP; for EXACT_INPUT, returns inputAmount unchanged", and "for EXACT_INPUT trades,
  outputAmount * (1 / (1 + slippageTolerance)), ROUND_DOWN; for EXACT_OUTPUT, returns
  outputAmount unchanged". ROUND_DOWN truncates toward zero, ROUND_UP goes away from zero
  unless exact, and a zero denominator is an arithmetic error.
\<close>

definition roundDown :: "int \<Rightarrow> int \<Rightarrow> int" where
  "roundDown n d = sgn n * sgn d * (\<bar>n\<bar> div \<bar>d\<bar>)"

definition roundUp :: "int \<Rightarrow> int \<Rightarrow> int" where
  "roundUp n d = sgn n * sgn d * ((\<bar>n\<bar> + \<bar>d\<bar> - 1) div \<bar>d\<bar>)"

definition spec_maximumAmountIn :: "Trade \<Rightarrow> Percent \<Rightarrow> error + CurrencyAmount" where
  "spec_maximumAmountIn trade slippageTolerance =
     (case tradeType trade of
        EXACT_INPUT \<Rightarrow> Inr (inputAmount trade)
      | EXACT_OUTPUT \<Rightarrow>
          (if denominator slippageTolerance = 0 then Inl DivisionByZero
           else Inr \<lparr>currency = currency (inputAmount trade),
                     raw = roundUp (raw (inputAmount trade)
                                     * (denominator slippageTolerance + numerator slippageTolerance))
                                   (denominator slippageTolerance)\<rparr>))"

definition spec_minimumAmountOut :: "Trade \<Rightarrow> Percent \<Rightarrow> error + CurrencyAmount" where
  "spec_minimumAmountOut trade slippageTolerance =
     (case tradeType trade of
        EXACT_OUTPUT \<Rightarrow> Inr (outputAmount trade)
      | EXACT_INPUT \<Rightarrow>
          (if denominator slippageTolerance = 0
              \<or> denominator slippageTolerance + numerator slippageTolerance = 0
           then Inl DivisionByZero
           else Inr \<lparr>currency = currency (outputAmount trade),
                     raw = roundDown (raw (outputAmount trade) * denominator slippageTolerance)
                                     (denominator slippageTolerance + numerator slippageTolerance)\<rparr>))"

section \<open>Sample inputs\<close>

definition tokenA :: Token where
  "tokenA = \<lparr>chainId = BSC_MAINNET, address = ''0x000000000000000000000000000000000000000a'', decimals = 18\<rparr>"

definition tokenB :: Token where
  "tokenB = \<lparr>chainId = BSC_MAINNET, address = ''0x000000000000000000000000000000000000000B'', decimals = 9\<rparr>"

definition pairAB :: Pair where
  "pairAB = \<lparr>token0 = tokenA, token1 = tokenB, reserve0 = 1000000, reserve1 = 2000000\<rparr>"

definition routeAB :: Route where
  "routeAB = \<lparr>pairs = [pairAB], route_path = [tokenA, tokenB]\<rparr>"

text \<open>One hop, exact input, native asset in (wrapped as \<open>tokenA\<close> on the route), token out.\<close>

definition tradeEthIn :: Trade where
  "tradeEthIn = \<lparr>route = routeAB, tradeType = EXACT_INPUT,
                  inputAmount = \<lparr>currency = ETHER, raw = 1000\<rparr>,
                  outputAmount = \<lparr>currency = TOKEN tokenB, raw = 1990\<rparr>\<rparr>"

text \<open>One hop, exact output, token in, token out.\<close>

definition tradeTokens :: Trade where
  "tradeTokens = \<lparr>route = routeAB, tradeType = EXACT_OUTPUT,
                   inputAmount = \<lparr>currency = TOKEN tokenA, raw = 1001\<rparr>,
                   outputAmount = \<lparr>currency = TOKEN tokenB, raw = 1990\<rparr>\<rparr>"

definition goodRecipient :: string where
  "goodRecipient = ''0x00000000000000000000000000000000000000c1''"

definition zeroTip :: CurrencyAmount where
  "zeroTip = \<lparr>currency = ETHER, raw = 0\<rparr>"

definition someTip :: CurrencyAmount where
  "someTip = \<lparr>currency = ETHER, raw = 255\<rparr>"

text \<open>Slippage of 50/10000, \<^verbatim>\<open>ttl\<close> of 1200 seconds, a zero tip under both keys.\<close>

definition optionsZeroTip :: TradeOptions where
  "optionsZeroTip = \<lparr>allowedSlippage = \<lparr>numerator = 50, denominator = 10000\<rparr>, ttl = Finite 1200,
                      recipient = goodRecipient, feeOnTransfer = None,
                      ethFee = Some zeroTip, ethTip = Some zeroTip\<rparr>"

definition optionsTip :: TradeOptions where
  "optionsTip = optionsZeroTip\<lparr>ethFee := Some someTip, ethTip := Some someTip\<rparr>"

text \<open>The same options with no tip under either key.\<close>

definition optionsNoTip :: TradeOptions where
  "optionsNoTip = optionsZeroTip\<lparr>ethFee := None, ethTip := None\<rparr>"

text \<open>No tip, and a recipient that is not an address.\<close>

definition optionsNoTipBadRecipient :: TradeOptions where
  "optionsNoTipBadRecipient = optionsNoTip\<lparr>recipient := ''nobody''\<rparr>"

text \<open>A tip supplied in a token, not in the native asset, under both keys.\<close>

definition optionsTokenTip :: TradeOptions where
  "optionsTokenTip = optionsZeroTip\<lparr>ethFee := Some \<lparr>currency = TOKEN tokenA, raw = 255\<rparr>,
                                      ethTip := Some \<lparr>currency = TOKEN tokenA, raw = 255\<rparr>\<rparr>"

text \<open>A tip in the native asset, and a \<^verbatim>\<open>ttl\<close> of 1200.5 seconds.\<close>

definition optionsFractionalTtl :: TradeOptions where
  "optionsFractionalTtl = optionsTip\<lparr>ttl := Finite (2401 / 2)\<rparr>"

text \<open>The collaborators as the specification describes them, at a fixed clock.\<close>

definition sampleExternals :: Externals where
  "sampleExternals = \<lparr>validateAndParseAddress = spec_validateAndParseAddress,
                       maximumAmountIn = spec_maximumAmountIn,
                       minimumAmountOut = spec_minimumAmountOut,
                       getTime = 1700000000123\<rparr>"

section \<open>Basic facts\<close>

lemma bind_result_simps [simp]:
  "bind_result (Inl e) f = Inl e" "bind_result (Inr x) f = f x"
  by (simp_all add: bind_result_def)

lemma invariant_simps [simp]:
  "invariant True m = Inr ()" "invariant False m = Inl (InvariantFailed m)"
  by (simp_all add: invariant_def)

lemma swapCallParameters_success:
  assumes "passesValidation ext trade options"
    and "maximumAmountIn ext trade (allowedSlippage options) = Inr a"
    and "minimumAmountOut ext trade (allowedSlippage options) = Inr b"
    and "currency (inputAmount trade) = ETHER \<Longrightarrow> currency a = ETHER"
    and "ethFee options = Some fee"
    and "validateAndParseAddress ext (recipient options) = Inr to_addr"
  shows "swapCallParameters ext trade options =
    Inr \<lparr>methodName = variantName (tradeType trade) (nativePosition trade),
         args = ArgSafeSwapTrade \<lparr>amountIn = toHex a, amountOut = toHex b,
                  path = map address (route_path (route trade)), to = to_addr,
                  deadline = ''0x'' @ numberToString16
                (addNumber (Finite (of_int (getTime ext div 1000))) (ttl options))\<rparr>
                # (if currency (inputAmount trade) = ETHER then [ArgString (toHex fee)] else []),
         value_hex = (if currency (inputAmount trade) = ETHER
                      then toHex \<lparr>currency = ETHER, raw = raw a + raw fee\<rparr> else toHex fee)\<rparr>"
  using assms
  by (cases "tradeType trade")
     (auto simp: swapCallParameters_def passesValidation_def nativePosition_def add_amount_def)

lemma swapCallParameters_tip_success:
  assumes "passesValidation ext trade (options\<lparr>ethFee := ethTip options\<rparr>)"
    and "maximumAmountIn ext trade (allowedSlippage options) = Inr a"
    and "minimumAmountOut ext trade (allowedSlippage options) = Inr b"
    and "currency (inputAmount trade) = ETHER \<Longrightarrow> currency a = ETHER"
    and "ethTip options = Some tip"
    and "validateAndParseAddress ext (recipient options) = Inr to_addr"
  shows "swapCallParameters_tip ext trade options =
    Inr \<lparr>methodName = variantName_tip (tradeType trade) (nativePosition trade),
         args = ArgSafeSwapTrade \<lparr>amountIn = toHex a, amountOut = toHex b,
                  path = map address (route_path (route trade)), to = to_addr,
                  deadline = ''0x'' @ numberToString16
                (addNumber (Finite (of_int (getTime ext div 1000))) (ttl options))\<rparr>
                # (if currency (inputAmount trade) = ETHER then [ArgString (toHex tip)] else []),
         value_hex = (if currency (inputAmount trade) = ETHER
                      then toHex \<lparr>currency = ETHER, raw = raw a + raw tip\<rparr> else toHex tip)\<rparr>"
  using assms
  by (cases "tradeType trade")
     (auto simp: swapCallParameters_tip_def passesValidation_def nativePosition_def add_amount_def)

lemma modules_agree:
  assumes "ethTip options' = ethFee options" "ttl options' = ttl options"
    "recipient options' = recipient options" "allowedSlippage options' = allowedSlippage options"
  shows "swapCallParameters_tip ext trade options' =
     map_sum id (\<lambda>r. r\<lparr>methodName := variantName_tip (tradeType trade) (nativePosition trade)\<rparr>)
       (swapCallParameters ext trade options)"
  using assms
  by (cases "tradeType trade")
   (auto simp: swapCallParameters_tip_def swapCallParameters_def nativePosition_def add_amount_def
       bind_result_def invariant_def
     split: sum.splits option.splits)




lemma digits16_0: "digits16 0 = ''0''"
  by (simp add: digits16.simps [of 0] hexDigit_def)



lemma numberToString16_whole: "numberToString16 (Finite (of_int i)) = toString16 i"
  by (simp add: toString16_def magnitude16_def)

lemma deadline_whole:
  "numberToString16 (addNumber (Finite (of_int n)) (Finite (of_int k))) = toString16 (n + k)"
  using numberToString16_whole [of "n + k"] by simp



lemma toHex_zero: "raw a = 0 \<Longrightarrow> toHex a = ''0x0''"
  by (simp add: toHex_def toString16_def digits16_0)

lemma validated_parts:
  assumes "passesValidation ext trade options"
  obtains fee to_addr where "ethFee options = Some fee" "currency fee = ETHER"
    "validateAndParseAddress ext (recipient options) = Inr to_addr"
  using assms by (auto simp: passesValidation_def split: option.splits sum.splits)

lemma swapCallParameters_Inr_methodName:
  assumes "swapCallParameters ext trade options = Inr r"
  shows "methodName r = variantName (tradeType trade) (nativePosition trade)"
  using assms
  by (cases "tradeType trade")
     (auto simp: swapCallParameters_def nativePosition_def bind_result_def invariant_def
           split: sum.splits option.splits if_splits)

lemma failed_validation_reported_first:
  assumes "\<not> passesValidation ext trade options"
  shows "\<exists>e. swapCallParameters ext trade options = Inl e
           \<and> swapCallParameters (ext\<lparr>maximumAmountIn := f, minimumAmountOut := g\<rparr>) trade options = Inl e"
  using assms
  by (auto simp: swapCallParameters_def passesValidation_def invariant_def Let_def
           split: sum.splits option.splits)

lemma fee_required:
  assumes "passesOtherValidation ext trade options"
    and "maximumAmountIn ext trade (allowedSlippage options) = Inr a"
    and "minimumAmountOut ext trade (allowedSlippage options) = Inr b"
    and "currency a = currency (inputAmount trade)"
  shows "(\<exists>r. swapCallParameters ext trade options = Inr r)
           = (\<exists>fee. ethFee options = Some fee \<and> currency fee = ETHER)"
proof (cases "\<exists>fee. ethFee options = Some fee \<and> currency fee = ETHER")
  case True
  then obtain fee where fee: "ethFee options = Some fee" "currency fee = ETHER" by blast
  with assms(1) have v: "passesValidation ext trade options"
    by (simp add: passesValidation_def passesOtherValidation_def)
  then obtain to_addr where to: "validateAndParseAddress ext (recipient options) = Inr to_addr"
    by (auto elim: validated_parts)
  from assms(4) have c: "currency (inputAmount trade) = ETHER \<Longrightarrow> currency a = ETHER" by simp
  show ?thesis
    using True by (simp add: swapCallParameters_success [OF v assms(2,3) c fee(1) to])
next
  case False
  then have "\<not> passesValidation ext trade options"
    by (auto simp: passesValidation_def split: option.splits)
  from failed_validation_reported_first [OF this] False show ?thesis
    by auto
qed

lemma nonpositive_ttl_fails:
  assumes "\<not> isPositive (ttl options)"
  shows "swapCallParameters ext trade options =
           Inl (InvariantFailed (Some (if currency (inputAmount trade) = ETHER
                                          \<and> currency (outputAmount trade) = ETHER
                                       then ''ETHER_IN_OUT'' else ''TTL'')))"
  using assms by (simp add: swapCallParameters_def)

section \<open>The sample inputs, evaluated\<close>

lemmas sample_defs =
  sampleExternals_def tradeEthIn_def tradeTokens_def optionsTip_def optionsZeroTip_def
  optionsNoTip_def optionsNoTipBadRecipient_def optionsTokenTip_def optionsFractionalTtl_def someTip_def zeroTip_def goodRecipient_def
  routeAB_def pairAB_def tokenA_def tokenB_def
  spec_validateAndParseAddress_def spec_maximumAmountIn_def spec_minimumAmountOut_def
  isAddress_def isHexChar_def roundDown_def roundUp_def

lemma sample_eth_in_valid: "passesValidation sampleExternals tradeEthIn optionsTip"
  by (simp add: passesValidation_def sample_defs)

lemma sample_eth_in_max:
  "maximumAmountIn sampleExternals tradeEthIn (allowedSlippage optionsTip)
     = Inr \<lparr>currency = ETHER, raw = 1000\<rparr>"
  by (simp add: sample_defs)

lemma sample_eth_in_min:
  "minimumAmountOut sampleExternals tradeEthIn (allowedSlippage optionsTip)
     = Inr \<lparr>currency = TOKEN tokenB, raw = 1980\<rparr>"
  by (simp add: sample_defs)

lemma sample_recipient:
  "validateAndParseAddress sampleExternals (recipient optionsTip) = Inr goodRecipient"
  by (simp add: sample_defs)

lemma sample_zero_tip_slippage: "allowedSlippage optionsZeroTip = allowedSlippage optionsTip"
  by (simp add: optionsTip_def)

lemma variant_names_coincide:
  "(variantName tt np = variantName_tip tt np) = (tt = EXACT_INPUT \<and> np = NativeOut)"
  by (cases tt; cases np) simp_all

section \<open>Method selection\<close>

text \<open>
  Claim C1, as stated, fails on the second router module: for an exact-output trade between
  two tokens it returns a name that is none of the six listed variants.
\<close>

theorem second_module_method_name_counterexample:
  "map_sum id methodName (swapCallParameters_tip sampleExternals tradeTokens optionsTip)
     = Inr ''swapTokensForExactTokensWithTipAmount''
   \<and> ''swapTokensForExactTokensWithTipAmount''
       \<notin> {variantName EXACT_INPUT NativeIn, variantName EXACT_INPUT NativeOut,
          variantName EXACT_INPUT TokenToToken, variantName EXACT_OUTPUT NativeIn,
          variantName EXACT_OUTPUT NativeOut, variantName EXACT_OUTPUT TokenToToken}"
  by (simp add: swapCallParameters_tip_def sample_defs)

text \<open>
  Claim C1, amended. For every trade and options that pass validation (the slippage bounds
  being computed, the maximum input in the trade's input currency), both modules return,
  and the method name depends on nothing but the trade type and the position of the
  native asset: in router.ts it is the entry of the six-variant table \<open>variantName\<close>, the
  six listed names; in the second router module, given the same tip under its own key, it
  is the entry of \<open>variantName_tip\<close>.
\<close>

theorem method_name_by_variant:
  assumes "passesValidation ext trade options"
    and "maximumAmountIn ext trade (allowedSlippage options) = Inr a"
    and "minimumAmountOut ext trade (allowedSlippage options) = Inr b"
    and "currency a = currency (inputAmount trade)"
  shows "(\<exists>r. swapCallParameters ext trade options = Inr r
            \<and> methodName r = variantName (tradeType trade) (nativePosition trade))
         \<and> (\<exists>r. swapCallParameters_tip ext trade (options\<lparr>ethTip := ethFee options\<rparr>) = Inr r
              \<and> methodName r = variantName_tip (tradeType trade) (nativePosition trade))"
proof -
  from assms(1) obtain fee to_addr where
    fee: "ethFee options = Some fee"
    and to: "validateAndParseAddress ext (recipient options) = Inr to_addr"
    by (auto elim: validated_parts)
  from assms(4) have c: "currency (inputAmount trade) = ETHER \<Longrightarrow> currency a = ETHER" by simp
  have m: "swapCallParameters_tip ext trade (options\<lparr>ethTip := ethFee options\<rparr>) =
     map_sum id (\<lambda>r. r\<lparr>methodName := variantName_tip (tradeType trade) (nativePosition trade)\<rparr>)
       (swapCallParameters ext trade options)"
    by (rule modules_agree) simp_all
  show ?thesis
    by (simp add: m swapCallParameters_success [OF assms(1,2,3) c fee to])
qed

theorem method_name_by_variant_witness:
  "passesValidation sampleExternals tradeEthIn optionsTip
   \<and> (\<exists>r. swapCallParameters sampleExternals tradeEthIn optionsTip = Inr r
          \<and> methodName r = ''swapExactETHForTokensWithFeeAmount'')
   \<and> (\<exists>r. swapCallParameters_tip sampleExternals tradeEthIn optionsTip = Inr r
          \<and> methodName r = ''swapExactETHForTokensWithTipAmount'')"
proof -
  have c: "currency \<lparr>currency = ETHER, raw = 1000\<rparr> = currency (inputAmount tradeEthIn)"
    by (simp add: tradeEthIn_def)
  have n: "variantName (tradeType tradeEthIn) (nativePosition tradeEthIn)
             = ''swapExactETHForTokensWithFeeAmount''"
    "variantName_tip (tradeType tradeEthIn) (nativePosition tradeEthIn)
             = ''swapExactETHForTokensWithTipAmount''"
    by (simp_all add: tradeEthIn_def nativePosition_def)
  have o: "optionsTip\<lparr>ethTip := ethFee optionsTip\<rparr> = optionsTip"
    by (simp add: optionsTip_def)
  from method_name_by_variant [OF sample_eth_in_valid sample_eth_in_max sample_eth_in_min c]
  show ?thesis using sample_eth_in_valid by (simp only: n o)
qed

section \<open>The value to attach\<close>

text \<open>
  Claim C2. For every trade and options that pass validation (the slippage bounds being
  computed, the maximum input in the trade's input currency): when the input currency is
  the native asset, the value field is the hex encoding of the maximum input amount plus
  the tip amount; when it is not, the value field is the hex encoding of the tip amount,
  which is \<open>0x0\<close> when the tip is zero.
\<close>

theorem value_field_native_amount:
  assumes "passesValidation ext trade options"
    and "maximumAmountIn ext trade (allowedSlippage options) = Inr a"
    and "minimumAmountOut ext trade (allowedSlippage options) = Inr b"
    and "currency a = currency (inputAmount trade)"
    and "ethFee options = Some fee"
  shows "\<exists>r. swapCallParameters ext trade options = Inr r
           \<and> (currency (inputAmount trade) = ETHER \<longrightarrow>
                  add_amount a fee = Inr \<lparr>currency = ETHER, raw = raw a + raw fee\<rparr>
                  \<and> value_hex r = toHex \<lparr>currency = ETHER, raw = raw a + raw fee\<rparr>)
           \<and> (currency (inputAmount trade) \<noteq> ETHER \<longrightarrow>
                  value_hex r = toHex fee \<and> (raw fee = 0 \<longrightarrow> value_hex r = ''0x0''))"
proof -
  from assms(1,5) obtain to_addr where
    to: "validateAndParseAddress ext (recipient options) = Inr to_addr" and fee: "currency fee = ETHER"
    by (auto elim: validated_parts)
  from assms(4) have c: "currency (inputAmount trade) = ETHER \<Longrightarrow> currency a = ETHER" by simp
  show ?thesis
    using assms(4) fee
    by (simp add: swapCallParameters_success [OF assms(1,2,3) c assms(5) to] add_amount_def toHex_zero)
qed

theorem value_field_native_amount_witness:
  "passesValidation sampleExternals tradeEthIn optionsTip
   \<and> ethFee optionsTip = Some someTip
   \<and> (\<exists>r. swapCallParameters sampleExternals tradeEthIn optionsTip = Inr r
          \<and> value_hex r = ''0x4e7'')"
proof -
  have c: "currency \<lparr>currency = ETHER, raw = 1000\<rparr> = currency (inputAmount tradeEthIn)"
    by (simp add: tradeEthIn_def)
  have f: "ethFee optionsTip = Some someTip"
    by (simp add: optionsTip_def)
  have h: "toHex \<lparr>currency = ETHER, raw = 1000 + raw someTip\<rparr> = ''0x4e7''"
    by (simp add: toHex_def toString16_def someTip_def digits16.simps hexDigit_def)
  from value_field_native_amount [OF sample_eth_in_valid sample_eth_in_max sample_eth_in_min c f]
  show ?thesis using sample_eth_in_valid f h by (auto simp: tradeEthIn_def)
qed

section \<open>The tip is required\<close>

text \<open>
  Claim C4, as stated, fails: with no tip amount supplied and every other validation
  passing, a token-to-token trade is refused, by either module.
\<close>

theorem tip_absent_fails_counterexample:
  "passesOtherValidation sampleExternals tradeTokens optionsNoTip
   \<and> ethFee optionsNoTip = None \<and> ethTip optionsNoTip = None
   \<and> swapCallParameters sampleExternals tradeTokens optionsNoTip = Inl (InvariantFailed None)
   \<and> swapCallParameters_tip sampleExternals tradeTokens optionsNoTip = Inl (InvariantFailed None)"
  by (simp add: passesOtherValidation_def swapCallParameters_def swapCallParameters_tip_def
        sample_defs)

text \<open>
  Claim C4, amended. The tip amount is required: when the other validations pass and the
  slippage bounds are computed, \<open>swapCallParameters\<close> succeeds exactly when a tip amount is
  supplied and its currency is the native asset. With no tip supplied, or with a tip in
  another currency, the call fails. The same holds of the second router module and its
  key \<^verbatim>\<open>ethTip\<close>.
\<close>

theorem tip_required:
  assumes "passesOtherValidation ext trade options"
    and "maximumAmountIn ext trade (allowedSlippage options) = Inr a"
    and "minimumAmountOut ext trade (allowedSlippage options) = Inr b"
    and "currency a = currency (inputAmount trade)"
  shows "((\<exists>r. swapCallParameters ext trade options = Inr r)
            = (\<exists>fee. ethFee options = Some fee \<and> currency fee = ETHER))
         \<and> ((\<exists>r. swapCallParameters_tip ext trade options = Inr r)
              = (\<exists>tip. ethTip options = Some tip \<and> currency tip = ETHER))"
proof -
  let ?o = "options\<lparr>ethFee := ethTip options\<rparr>"
  have o: "passesOtherValidation ext trade ?o"
    using assms(1) by (simp add: passesOtherValidation_def)
  have m: "swapCallParameters_tip ext trade options =
     map_sum id (\<lambda>r. r\<lparr>methodName := variantName_tip (tradeType trade) (nativePosition trade)\<rparr>)
       (swapCallParameters ext trade ?o)"
    by (rule modules_agree) simp_all
  have "(\<exists>r. swapCallParameters_tip ext trade options = Inr r)
          = (\<exists>r. swapCallParameters ext trade ?o = Inr r)"
    by (cases "swapCallParameters ext trade ?o") (simp_all add: m)
  also have "\<dots> = (\<exists>fee. ethFee ?o = Some fee \<and> currency fee = ETHER)"
    using fee_required [OF o, of a b] assms(2,3,4) by simp
  finally show ?thesis
    using fee_required [OF assms] by simp
qed

theorem tip_required_witness:
  "passesOtherValidation sampleExternals tradeEthIn optionsTip
   \<and> (\<exists>r. swapCallParameters sampleExternals tradeEthIn optionsTip = Inr r)
   \<and> (\<exists>fee. ethFee optionsTip = Some fee \<and> currency fee = ETHER)"
proof -
  have c: "currency \<lparr>currency = ETHER, raw = 1000\<rparr> = currency (inputAmount tradeEthIn)"
    by (simp add: tradeEthIn_def)
  have o: "passesOtherValidation sampleExternals tradeEthIn optionsTip"
    using sample_eth_in_valid by (simp add: passesValidation_def passesOtherValidation_def)
  have f: "\<exists>fee. ethFee optionsTip = Some fee \<and> currency fee = ETHER"
    by (simp add: optionsTip_def someTip_def)
  from tip_required [OF o sample_eth_in_max sample_eth_in_min c] o f
  show ?thesis by simp
qed

section \<open>The one-hop scenario\<close>

text \<open>
  Claim C5. For a one-hop EXACT_INPUT trade with the native asset as input and a token as
  output, a \<^verbatim>\<open>ttl\<close> of 1200, any fixed clock and a tip amount of zero,
  \<open>swapCallParameters\<close> returns the method name \<open>swapExactETHForTokensWithFeeAmount\<close>, a
  first argument whose path has length 2 (and whose deadline is the clock's seconds plus
  1200), and a value equal to the hex encoding of the maximum input amount.
\<close>

theorem one_hop_exact_input_native_in:
  assumes "tradeType trade = EXACT_INPUT"
    and "currency (inputAmount trade) = ETHER"
    and "currency (outputAmount trade) = TOKEN tk"
    and "validRoute (route trade)" and "length (pairs (route trade)) = 1"
    and "ttl options = Finite 1200"
    and "ethFee options = Some fee" and "currency fee = ETHER" and "raw fee = 0"
    and "validateAndParseAddress ext (recipient options) = Inr to_addr"
    and "maximumAmountIn ext trade (allowedSlippage options) = Inr a"
    and "currency a = ETHER"
    and "minimumAmountOut ext trade (allowedSlippage options) = Inr b"
  shows "\<exists>r s. swapCallParameters ext trade options = Inr r
           \<and> methodName r = ''swapExactETHForTokensWithFeeAmount''
           \<and> args r = [ArgSafeSwapTrade s, ArgString ''0x0'']
           \<and> length (path s) = 2
           \<and> deadline s = ''0x'' @ toString16 (getTime ext div 1000 + 1200)
           \<and> value_hex r = toHex a"
proof -
  have v: "passesValidation ext trade options"
    using assms by (simp add: passesValidation_def)
  have c: "currency (inputAmount trade) = ETHER \<Longrightarrow> currency a = ETHER"
    using assms(12) by simp
  have len: "length (route_path (route trade)) = 2"
    using assms(4,5) by (simp add: validRoute_def)
  have val: "toHex \<lparr>currency = ETHER, raw = raw a + raw fee\<rparr> = toHex a"
    using assms(9) by (simp add: toHex_def)
  have dl: "numberToString16 (addNumber (Finite (of_int (getTime ext div 1000))) (ttl options))
              = toString16 (getTime ext div 1000 + 1200)"
    using deadline_whole [of "getTime ext div 1000" 1200] by (simp add: assms(6))
  show ?thesis
    using assms(1,2) len val
    by (simp add: swapCallParameters_success [OF v assms(11) assms(13) c assms(7) assms(10)]
          nativePosition_def toHex_zero [OF assms(9)] dl)
qed

theorem one_hop_exact_input_native_in_witness:
  "tradeType tradeEthIn = EXACT_INPUT \<and> currency (inputAmount tradeEthIn) = ETHER
   \<and> currency (outputAmount tradeEthIn) = TOKEN tokenB
   \<and> validRoute (route tradeEthIn) \<and> length (pairs (route tradeEthIn)) = 1
   \<and> ttl optionsZeroTip = Finite 1200 \<and> ethFee optionsZeroTip = Some zeroTip
   \<and> (\<exists>r s. swapCallParameters sampleExternals tradeEthIn optionsZeroTip = Inr r
          \<and> methodName r = ''swapExactETHForTokensWithFeeAmount''
          \<and> args r = [ArgSafeSwapTrade s, ArgString ''0x0'']
          \<and> length (path s) = 2
          \<and> deadline s = ''0x6553f5b0''
          \<and> value_hex r = ''0x3e8'')"
proof -
  have h1: "tradeType tradeEthIn = EXACT_INPUT" by (simp add: tradeEthIn_def)
  have h2: "currency (inputAmount tradeEthIn) = ETHER" by (simp add: tradeEthIn_def)
  have h3: "currency (outputAmount tradeEthIn) = TOKEN tokenB" by (simp add: tradeEthIn_def)
  have h4: "validRoute (route tradeEthIn)" by (simp add: tradeEthIn_def routeAB_def validRoute_def)
  have h5: "length (pairs (route tradeEthIn)) = 1" by (simp add: tradeEthIn_def routeAB_def)
  have h6: "ttl optionsZeroTip = Finite 1200" by (simp add: optionsZeroTip_def)
  have h7: "ethFee optionsZeroTip = Some zeroTip" by (simp add: optionsZeroTip_def)
  have h8: "currency zeroTip = ETHER" by (simp add: zeroTip_def)
  have h9: "raw zeroTip = 0" by (simp add: zeroTip_def)
  have h10: "validateAndParseAddress sampleExternals (recipient optionsZeroTip) = Inr goodRecipient"
    by (simp add: sample_defs)
  have h11: "maximumAmountIn sampleExternals tradeEthIn (allowedSlippage optionsZeroTip)
               = Inr \<lparr>currency = ETHER, raw = 1000\<rparr>"
    using sample_eth_in_max by (simp only: sample_zero_tip_slippage)
  have h12: "currency \<lparr>currency = ETHER, raw = 1000\<rparr> = ETHER" by simp
  have h13: "minimumAmountOut sampleExternals tradeEthIn (allowedSlippage optionsZeroTip)
               = Inr \<lparr>currency = TOKEN tokenB, raw = 1980\<rparr>"
    using sample_eth_in_min by (simp only: sample_zero_tip_slippage)
  have d: "''0x'' @ toString16 (getTime sampleExternals div 1000 + 1200) = ''0x6553f5b0''"
    by (simp add: sampleExternals_def toString16_def digits16.simps hexDigit_def)
  have x: "toHex \<lparr>currency = ETHER, raw = 1000\<rparr> = ''0x3e8''"
    by (simp add: toHex_def toString16_def digits16.simps hexDigit_def)
  from one_hop_exact_input_native_in [OF h1 h2 h3 h4 h5 h6 h7 h8 h9 h10 h11 h12 h13]
  show ?thesis
    using h1 h2 h3 h4 h5 h6 h7 by (simp only: d x)
qed

section \<open>The two router modules\<close>

text \<open>
  Claim C6, as stated, fails: given the same tip under their respective keys, the two
  modules return different method names for an exact-input trade with the native asset in.
\<close>

theorem modules_differ_in_method_name_counterexample:
  "ethTip optionsTip = ethFee optionsTip
   \<and> map_sum id methodName (swapCallParameters sampleExternals tradeEthIn optionsTip)
        = Inr ''swapExactETHForTokensWithFeeAmount''
   \<and> map_sum id methodName (swapCallParameters_tip sampleExternals tradeEthIn optionsTip)
        = Inr ''swapExactETHForTokensWithTipAmount''"
proof -
  have c: "currency (inputAmount tradeEthIn) = ETHER \<Longrightarrow> currency \<lparr>currency = ETHER, raw = 1000\<rparr> = ETHER"
    by simp
  have f: "ethFee optionsTip = Some someTip" "ethTip optionsTip = Some someTip"
    by (simp_all add: optionsTip_def)
  have v: "passesValidation sampleExternals tradeEthIn (optionsTip\<lparr>ethFee := ethTip optionsTip\<rparr>)"
    by (simp add: passesValidation_def sample_defs)
  have n: "nativePosition tradeEthIn = NativeIn" "tradeType tradeEthIn = EXACT_INPUT"
    by (simp_all add: nativePosition_def tradeEthIn_def)
  show ?thesis
    using n f
    by (simp add:
      swapCallParameters_success [OF sample_eth_in_valid sample_eth_in_max sample_eth_in_min c f(1) sample_recipient]
      swapCallParameters_tip_success [OF v sample_eth_in_max sample_eth_in_min c f(2) sample_recipient])
qed

text \<open>
  Claim C6, amended. For every trade and every two options objects that agree on slippage,
  \<^verbatim>\<open>ttl\<close> and recipient and carry equal tip amounts under \<^verbatim>\<open>ethFee\<close> and \<^verbatim>\<open>ethTip\<close>, the
  two \<open>swapCallParameters\<close> functions fail with the same error or both return, with the same
  args and the same value; the method name of router.ts is the entry of \<open>variantName\<close>,
  that of the second module the entry of \<open>variantName_tip\<close>, and the two names coincide only
  for an exact-input trade with the native asset out.
\<close>

theorem modules_equal_up_to_method_name:
  assumes "ethTip options' = ethFee options" and "ttl options' = ttl options"
    and "recipient options' = recipient options"
    and "allowedSlippage options' = allowedSlippage options"
  shows "swapCallParameters_tip ext trade options' =
           map_sum id (\<lambda>r. r\<lparr>methodName := variantName_tip (tradeType trade) (nativePosition trade)\<rparr>)
             (swapCallParameters ext trade options)
         \<and> (\<forall>r. swapCallParameters ext trade options = Inr r \<longrightarrow>
               methodName r = variantName (tradeType trade) (nativePosition trade))
         \<and> ((variantName (tradeType trade) (nativePosition trade)
               = variantName_tip (tradeType trade) (nativePosition trade))
             = (tradeType trade = EXACT_INPUT \<and> nativePosition trade = NativeOut))"
  using modules_agree [OF assms] swapCallParameters_Inr_methodName variant_names_coincide
  by blast

theorem modules_equal_up_to_method_name_witness:
  "ethTip optionsTip = ethFee optionsTip
   \<and> swapCallParameters_tip sampleExternals tradeEthIn optionsTip =
       map_sum id (\<lambda>r. r\<lparr>methodName := ''swapExactETHForTokensWithTipAmount''\<rparr>)
         (swapCallParameters sampleExternals tradeEthIn optionsTip)"
proof -
  have e: "ethTip optionsTip = ethFee optionsTip" by (simp add: optionsTip_def)
  have n: "variantName_tip (tradeType tradeEthIn) (nativePosition tradeEthIn)
             = ''swapExactETHForTokensWithTipAmount''"
    by (simp add: tradeEthIn_def nativePosition_def)
  from modules_equal_up_to_method_name [OF e refl refl refl, of sampleExternals tradeEthIn]
  show ?thesis using e by (simp add: n)
qed

section \<open>Hex formatting\<close>




section \<open>The argument list\<close>

text \<open>
  Claim C10. For every trade and options that pass validation, the first element of args
  is the record of amountIn, amountOut, path, to and deadline; the tip's hex string
  follows it exactly when the trade's input currency is the native asset, and there is no
  other element. The second router module, given the same tip under its own key, returns
  the same args.
\<close>

theorem args_shape:
  assumes "passesValidation ext trade options"
    and "maximumAmountIn ext trade (allowedSlippage options) = Inr a"
    and "minimumAmountOut ext trade (allowedSlippage options) = Inr b"
    and "currency a = currency (inputAmount trade)"
    and "ethFee options = Some fee"
    and "validateAndParseAddress ext (recipient options) = Inr to_addr"
  shows "\<exists>r. swapCallParameters ext trade options = Inr r
           \<and> args r =
               ArgSafeSwapTrade \<lparr>amountIn = toHex a, amountOut = toHex b,
                   path = map address (route_path (route trade)), to = to_addr,
                   deadline = ''0x'' @ numberToString16
                (addNumber (Finite (of_int (getTime ext div 1000))) (ttl options))\<rparr>
               # (if currency (inputAmount trade) = ETHER then [ArgString (toHex fee)] else [])
           \<and> map_sum id args (swapCallParameters_tip ext trade (options\<lparr>ethTip := ethFee options\<rparr>))
               = Inr (args r)"
proof -
  from assms(4) have c: "currency (inputAmount trade) = ETHER \<Longrightarrow> currency a = ETHER" by simp
  have m: "swapCallParameters_tip ext trade (options\<lparr>ethTip := ethFee options\<rparr>) =
     map_sum id (\<lambda>r. r\<lparr>methodName := variantName_tip (tradeType trade) (nativePosition trade)\<rparr>)
       (swapCallParameters ext trade options)"
    by (rule modules_agree) simp_all
  show ?thesis
    by (simp add: m swapCallParameters_success [OF assms(1,2,3) c assms(5,6)])
qed

theorem args_shape_witness:
  "passesValidation sampleExternals tradeEthIn optionsTip
   \<and> (\<exists>r. swapCallParameters sampleExternals tradeEthIn optionsTip = Inr r
         \<and> args r = [ArgSafeSwapTrade \<lparr>amountIn = ''0x3e8'', amountOut = ''0x7bc'',
                        path = [''0x000000000000000000000000000000000000000a'',
                                ''0x000000000000000000000000000000000000000B''],
                        to = ''0x00000000000000000000000000000000000000c1'',
                        deadline = ''0x6553f5b0''\<rparr>,
                     ArgString ''0xff''])"
proof -
  have c: "currency \<lparr>currency = ETHER, raw = 1000\<rparr> = currency (inputAmount tradeEthIn)"
    by (simp add: tradeEthIn_def)
  have f: "ethFee optionsTip = Some someTip" by (simp add: optionsTip_def)
  have h: "toHex \<lparr>currency = ETHER, raw = 1000\<rparr> = ''0x3e8''"
    "toHex \<lparr>currency = TOKEN tokenB, raw = 1980\<rparr> = ''0x7bc''"
    "toHex someTip = ''0xff''"
    "''0x'' @ numberToString16
       (addNumber (Finite (of_int (getTime sampleExternals div 1000))) (ttl optionsTip))
     = ''0x6553f5b0''"
    by (simp_all add: toHex_def toString16_def digits16.simps hexDigit_def someTip_def
          sampleExternals_def optionsTip_def optionsZeroTip_def magnitude16_def)
  have p: "map address (route_path (route tradeEthIn)) =
      [''0x000000000000000000000000000000000000000a'', ''0x000000000000000000000000000000000000000B'']"
    "currency (inputAmount tradeEthIn) = ETHER"
    "goodRecipient = ''0x00000000000000000000000000000000000000c1''"
    by (simp_all add: tradeEthIn_def routeAB_def tokenA_def tokenB_def goodRecipient_def)
  from args_shape [OF sample_eth_in_valid sample_eth_in_max sample_eth_in_min c f sample_recipient]
  show ?thesis using sample_eth_in_valid by (simp only: h p) auto
qed

section \<open>Reasons of the validation failures\<close>

text \<open>
  Claim C8 at a failing input: a token-to-token trade with a tip supplied in a token. In
  both modules the tip check is the one invariant written without a message, so its
  failure carries no reason, where the neighbouring \<^verbatim>\<open>ttl\<close> check carries \<open>TTL\<close>.
\<close>

theorem tip_check_untagged:
  "swapCallParameters sampleExternals tradeTokens optionsTokenTip = Inl (InvariantFailed None)
   \<and> swapCallParameters_tip sampleExternals tradeTokens optionsTokenTip
        = Inl (InvariantFailed None)
   \<and> swapCallParameters sampleExternals tradeTokens (optionsTokenTip\<lparr>ttl := Finite 0\<rparr>)
        = Inl (InvariantFailed (Some ''TTL''))"
  by (simp add: swapCallParameters_def swapCallParameters_tip_def optionsTokenTip_def sample_defs)

text \<open>
  Claim C3 at a failing input: a recipient that the validator rejects, in options that
  supply no tip. The call fails at the tip check, before the recipient is looked at, and
  the failure carries no reason.
\<close>

theorem rejected_recipient_unnamed_error:
  "validateAndParseAddress sampleExternals (recipient optionsNoTipBadRecipient)
     = Inl (InvalidAddress ''nobody'')
   \<and> swapCallParameters sampleExternals tradeTokens optionsNoTipBadRecipient
        = Inl (InvariantFailed None)"
  by (simp add: swapCallParameters_def sample_defs)

section \<open>The per-network constant tables\<close>

text \<open>
  Claim C9, as stated, fails: for RINKEBY the factory address and the init-code hash are
  both the empty string.
\<close>

theorem networks_without_constants_counterexample:
  "FACTORY_ADDRESS RINKEBY = [] \<and> \<not> isAddress (FACTORY_ADDRESS RINKEBY)
   \<and> INIT_CODE_HASH RINKEBY = []"
  by (simp add: isAddress_def)

text \<open>
  Claim C9, amended. For the network identifiers MAINNET, ROPSTEN, BSC_MAINNET and
  BSC_TESTNET, and for no others, the per-network constant tables supply a usable factory
  contract address (a nonempty 20-byte hex address that the address validator accepts) and
  a nonempty pool init-code hash (\<open>0x\<close> followed by 64 hexadecimal digits); for RINKEBY,
  GOERLI and KOVAN both entries are the empty string.
\<close>

theorem constant_tables_by_network:
  "((FACTORY_ADDRESS c \<noteq> [] \<and> isAddress (FACTORY_ADDRESS c)
       \<and> spec_validateAndParseAddress (FACTORY_ADDRESS c) = Inr (FACTORY_ADDRESS c)
       \<and> INIT_CODE_HASH c \<noteq> [] \<and> length (INIT_CODE_HASH c) = 66
       \<and> take 2 (INIT_CODE_HASH c) = ''0x''
       \<and> list_all isHexChar (drop 2 (INIT_CODE_HASH c)))
     = (c \<in> {MAINNET, ROPSTEN, BSC_MAINNET, BSC_TESTNET}))
   \<and> ((FACTORY_ADDRESS c = [] \<and> INIT_CODE_HASH c = []) = (c \<in> {RINKEBY, GOERLI, KOVAN}))"
  by (cases c) (simp_all add: spec_validateAndParseAddress_def isAddress_def isHexChar_def)

theorem constant_tables_by_network_witness:
  "isAddress (FACTORY_ADDRESS BSC_MAINNET)
   \<and> spec_validateAndParseAddress (FACTORY_ADDRESS BSC_MAINNET) = Inr (FACTORY_ADDRESS BSC_MAINNET)
   \<and> length (INIT_CODE_HASH BSC_MAINNET) = 66
   \<and> list_all isHexChar (drop 2 (INIT_CODE_HASH BSC_MAINNET))
   \<and> FACTORY_ADDRESS KOVAN = [] \<and> INIT_CODE_HASH KOVAN = []"
  using constant_tables_by_network [of BSC_MAINNET] constant_tables_by_network [of KOVAN]
  by simp

end
